theory Spec2Isabelle
  imports Complex_Main
begin

section \<open>Scalars, errors and the collaborators of the two classes\<close>

text \<open>
  The template parameter \<open>Scalar\<close> of both classes is read as the type \<open>real\<close>:
  every arithmetic operation of the source is the exact operation of the reals, so the
  results below are those of exact arithmetic, without rounding. A division keeps the
  shape it has in the source; every statement that depends on a divisor being non-zero
  says so in a hypothesis.

  The two exception classes of \<open>nanospline/Exceptions.h\<close> are the first two
  constructors of \<open>error\<close>. The third one stands for a failed \<open>assert\<close> (of the
  source or of Eigen): it aborts the program and is no C++ exception.
\<close>

datatype error = not_implemented_error | invalid_setting_error | assertion_failure

text \<open>
  A row-major matrix is the list of its rows. \<open>BSplineHomogeneous\<close> is the
  polynomial B-spline in one dimension more; of its state only the control points and the
  knots are visible to \<open>NURBS\<close>.
\<close>

type_synonym matrix = "real list list"

record bspline =
  bs_control_points :: matrix
  bs_knots :: "real list"

text \<open>
  The members of \<open>NURBS\<close>: \<open>m_control_points\<close> and \<open>m_knots\<close> are inherited from
  \<open>BSplineBase\<close>, the other two are its own.
\<close>

record nurbs =
  m_control_points :: matrix
  m_knots :: "real list"
  m_weights :: "real list"
  m_bspline_homogeneous :: bspline

text \<open>
  Modelled from the spec: \<open>BSplineBase.h\<close> and \<open>BSpline.h\<close> are not among the files.
  What \<open>NURBS\<close> calls there is a parameter of the model, collected in one record:
  \<^item> \<open>validate_curve\<close>: \<open>BSplineBase::validate_curve\<close> on the inherited members. It
    checks a structural precondition, whose failure is of the kind invalid configuration:
    \<open>False\<close> when it throws that error, \<open>True\<close> when it returns.
  \<^item> \<open>hom_evaluate\<close>, \<open>hom_evaluate_derivative\<close>: \<open>BSpline::evaluate\<close> and
    \<open>BSpline::evaluate_derivative\<close> of the homogeneous curve; either may throw.
  \<^item> \<open>hom_insert_knot\<close>: \<open>BSpline::insert_knot\<close>, which mutates the homogeneous
    curve: the curve after the call and the exception, if one was thrown.
\<close>

record engine =
  validate_curve :: "matrix \<Rightarrow> real list \<Rightarrow> bool"
  hom_evaluate :: "bspline \<Rightarrow> real \<Rightarrow> error + real list"
  hom_evaluate_derivative :: "bspline \<Rightarrow> real \<Rightarrow> error + real list"
  hom_insert_knot :: "bspline \<Rightarrow> real \<Rightarrow> int \<Rightarrow> bspline \<times> error option"

subsection \<open>The Eigen expressions of NURBS.h\<close>

text \<open>\<open>v.head<n>()\<close> and \<open>v.segment<n>(0)\<close>: the first \<open>n\<close> entries.\<close>

definition head :: "nat \<Rightarrow> real list \<Rightarrow> real list" where
  "head n v = take n v"

text \<open>Vector times scalar, vector by scalar, vector minus vector (entry by entry).\<close>

definition vec_times :: "real list \<Rightarrow> real \<Rightarrow> real list" where
  "vec_times v s = map (\<lambda>x. x * s) v"

definition vec_over :: "real list \<Rightarrow> real \<Rightarrow> real list" where
  "vec_over v s = map (\<lambda>x. x / s) v"

definition vec_minus :: "real list \<Rightarrow> real list \<Rightarrow> real list" where
  "vec_minus a b = map2 (\<lambda>x y. x - y) a b"

text \<open>\<open>M.leftCols(n)\<close>, \<open>M.col(n)\<close> and \<open>M.rightCols<1>()\<close>.\<close>

definition leftCols :: "nat \<Rightarrow> matrix \<Rightarrow> matrix" where
  "leftCols n M = map (take n) M"


definition rightCols1 :: "matrix \<Rightarrow> real list" where
  "rightCols1 M = map last M"

text \<open>
  \<open>M.array().colwise() * w.array()\<close> and \<open>M.array().colwise() / w.array()\<close>: row \<open>i\<close>
  of \<open>M\<close> times (over) entry \<open>i\<close> of \<open>w\<close>. Eigen asserts that \<open>w\<close> has one entry per
  row of \<open>M\<close>; the callers below check it where the source does not establish it.
\<close>

definition colwise_times :: "matrix \<Rightarrow> real list \<Rightarrow> matrix" where
  "colwise_times M w = map2 (\<lambda>r s. map (\<lambda>x. x * s) r) M w"

definition colwise_over :: "matrix \<Rightarrow> real list \<Rightarrow> matrix" where
  "colwise_over M w = map2 (\<lambda>r s. map (\<lambda>x. x / s) r) M w"

section \<open>NURBS.h\<close>

text \<open>
  The template parameter \<open>_dim\<close> is the argument \<open>D\<close>. The types of the source make
  every row of \<open>m_control_points\<close> \<open>D\<close> entries long and every row of the homogeneous
  control points, like every point of the homogeneous curve, \<open>D + 1\<close> entries long; lists
  do not, and the statements below say it in a hypothesis where they need it.
\<close>

definition validate_initialization :: "engine \<Rightarrow> nurbs \<Rightarrow> error option" where
  "validate_initialization E c =
     (if \<not> validate_curve E (m_control_points c) (m_knots c) then Some invalid_setting_error
      else
        let ctrl_pts = bs_control_points (m_bspline_homogeneous c) in
        if length ctrl_pts \<noteq> length (m_control_points c) \<or>
           length ctrl_pts \<noteq> length (m_weights c)
        then Some invalid_setting_error
        else None)"

definition NURBS_evaluate :: "nat \<Rightarrow> engine \<Rightarrow> nurbs \<Rightarrow> real \<Rightarrow> error + real list" where
  "NURBS_evaluate D E c t =
     (case validate_initialization E c of
        Some e \<Rightarrow> Inl e
      | None \<Rightarrow>
          (case hom_evaluate E (m_bspline_homogeneous c) t of
             Inl e \<Rightarrow> Inl e
           | Inr p \<Rightarrow> Inr (vec_over (head D p) (p ! D))))"

definition NURBS_inverse_evaluate :: "nurbs \<Rightarrow> real list \<Rightarrow> error + real" where
  "NURBS_inverse_evaluate c p = Inl not_implemented_error"

definition NURBS_evaluate_derivative ::
  "nat \<Rightarrow> engine \<Rightarrow> nurbs \<Rightarrow> real \<Rightarrow> error + real list" where
  "NURBS_evaluate_derivative D E c t =
     (case validate_initialization E c of
        Some e \<Rightarrow> Inl e
      | None \<Rightarrow>
          (case hom_evaluate E (m_bspline_homogeneous c) t of
             Inl e \<Rightarrow> Inl e
           | Inr p \<Rightarrow>
               (case hom_evaluate_derivative E (m_bspline_homogeneous c) t of
                  Inl e \<Rightarrow> Inl e
                | Inr d \<Rightarrow>
                    Inr (vec_over
                          (vec_minus (head D d)
                             (vec_over (vec_times (head D p) (d ! D)) (p ! D)))
                          (p ! D)))))"

definition NURBS_evaluate_2nd_derivative :: "nurbs \<Rightarrow> real \<Rightarrow> error + real list" where
  "NURBS_evaluate_2nd_derivative c t = Inl not_implemented_error"


text \<open>
  Modelled from the spec: \<open>set_control_points\<close>, \<open>set_knots\<close>, \<open>get_control_points\<close>
  and \<open>get_knots\<close> of the homogeneous curve (\<open>BSplineBase.h\<close>, not among the files) are
  plain accessors of the two fields of \<open>bspline\<close>.

  \<open>initialize\<close> throws nothing. The product \<open>m_control_points.array().colwise() *
  m_weights.array()\<close> needs one weight per control point: Eigen asserts it, and the
  model fails there.
\<close>

definition NURBS_initialize :: "nurbs \<Rightarrow> error + nurbs" where
  "NURBS_initialize c =
     (if length (m_weights c) \<noteq> length (m_control_points c) then Inl assertion_failure
      else
        let ctrl_pts = map2 (\<lambda>r w. r @ [w])
                         (colwise_times (m_control_points c) (m_weights c)) (m_weights c)
        in Inr (c\<lparr>m_bspline_homogeneous :=
                   (m_bspline_homogeneous c)\<lparr>bs_control_points := ctrl_pts,
                                              bs_knots := m_knots c\<rparr>\<rparr>))"

definition get_weights :: "nurbs \<Rightarrow> real list" where
  "get_weights c = m_weights c"

definition set_weights :: "nurbs \<Rightarrow> real list \<Rightarrow> nurbs" where
  "set_weights c weights = c\<lparr>m_weights := weights\<rparr>"

definition get_homogeneous :: "nurbs \<Rightarrow> bspline" where
  "get_homogeneous c = m_bspline_homogeneous c"

definition set_homogeneous :: "nat \<Rightarrow> engine \<Rightarrow> nurbs \<Rightarrow> bspline \<Rightarrow> nurbs \<times> error option" where
  "set_homogeneous D E c homogeneous =
     (let ctrl_pts = bs_control_points homogeneous;
          weights = rightCols1 ctrl_pts;
          c' = c\<lparr>m_control_points := colwise_over (leftCols D ctrl_pts) weights,
                 m_knots := bs_knots homogeneous,
                 m_weights := weights,
                 m_bspline_homogeneous := homogeneous\<rparr>
      in (c', validate_initialization E c'))"

section \<open>RevolutionPatch.h\<close>

subsection \<open>Eigen on three-dimensional vectors\<close>

text \<open>
  \<open>static_assert(_dim == 3)\<close>: a \<open>Point\<close> is a row vector of three scalars and a
  \<open>Frame\<close> a matrix of three rows. The operations are those of Eigen, written out on the
  coordinates.
\<close>

type_synonym Point = "real \<times> real \<times> real"

type_synonym Frame = "Point \<times> Point \<times> Point"

fun row0 :: "Frame \<Rightarrow> Point" where
  "row0 (r0, r1, r2) = r0"

fun row1 :: "Frame \<Rightarrow> Point" where
  "row1 (r0, r1, r2) = r1"

fun row2 :: "Frame \<Rightarrow> Point" where
  "row2 (r0, r1, r2) = r2"

fun vadd :: "Point \<Rightarrow> Point \<Rightarrow> Point" where
  "vadd (a1, a2, a3) (b1, b2, b3) = (a1 + b1, a2 + b2, a3 + b3)"

fun vsub :: "Point \<Rightarrow> Point \<Rightarrow> Point" where
  "vsub (a1, a2, a3) (b1, b2, b3) = (a1 - b1, a2 - b2, a3 - b3)"

fun vneg :: "Point \<Rightarrow> Point" where
  "vneg (a1, a2, a3) = (- a1, - a2, - a3)"

text \<open>Scalar times vector, vector times scalar and vector over scalar.\<close>

fun smul :: "real \<Rightarrow> Point \<Rightarrow> Point" where
  "smul s (a1, a2, a3) = (s * a1, s * a2, s * a3)"

fun vmul :: "Point \<Rightarrow> real \<Rightarrow> Point" where
  "vmul (a1, a2, a3) s = (a1 * s, a2 * s, a3 * s)"

fun vdiv :: "Point \<Rightarrow> real \<Rightarrow> Point" where
  "vdiv (a1, a2, a3) s = (a1 / s, a2 / s, a3 / s)"

fun dot :: "Point \<Rightarrow> Point \<Rightarrow> real" where
  "dot (a1, a2, a3) (b1, b2, b3) = a1 * b1 + a2 * b2 + a3 * b3"

fun cross :: "Point \<Rightarrow> Point \<Rightarrow> Point" where
  "cross (a1, a2, a3) (b1, b2, b3) =
     (a2 * b3 - a3 * b2, a3 * b1 - a1 * b3, a1 * b2 - a2 * b1)"

definition squaredNorm :: "Point \<Rightarrow> real" where
  "squaredNorm a = dot a a"

definition vnorm :: "Point \<Rightarrow> real" where
  "vnorm a = sqrt (squaredNorm a)"

text \<open>\<open>normalized()\<close> leaves a vector of squared norm zero as it is.\<close>

definition normalized :: "Point \<Rightarrow> Point" where
  "normalized a = (let z = squaredNorm a in if z > 0 then vdiv a (sqrt z) else a)"

text \<open>
  \<open>Eigen::AngleAxis<Scalar> R(angle, axis)\<close> and \<open>R * x\<close>: the product of
  \<open>R.toRotationMatrix()\<close> with the column vector \<open>x\<close>. The matrix is built as Eigen
  builds it, from \<open>sin angle * axis\<close>, \<open>cos angle\<close> and \<open>(1 - cos angle) * axis\<close>;
  the axis is used as it is given.
\<close>

fun toRotationMatrix :: "real \<Rightarrow> Point \<Rightarrow> Frame" where
  "toRotationMatrix angle (x, y, z) =
     (let sx = sin angle * x; sy = sin angle * y; sz = sin angle * z;
          c = cos angle;
          cx = (1 - c) * x; cy = (1 - c) * y; cz = (1 - c) * z
      in ((cx * x + c, cx * y - sz, cx * z + sy),
          (cx * y + sz, cy * y + c, cy * z - sx),
          (cx * z - sy, cy * z + sx, cz * z + c)))"

definition mat_vec :: "Frame \<Rightarrow> Point \<Rightarrow> Point" where
  "mat_vec M x = (dot (row0 M) x, dot (row1 M) x, dot (row2 M) x)"

definition AngleAxis_times :: "real \<Rightarrow> Point \<Rightarrow> Point \<Rightarrow> Point" where
  "AngleAxis_times angle axis x = mat_vec (toRotationMatrix angle axis) x"

subsection \<open>The state of a patch\<close>

text \<open>
  \<open>ProfileType = CurveBase\<close>: the patch calls five virtual functions of the profile
  curve, which are the fields of \<open>profile\<close>; the three evaluations may throw. The
  pointer \<open>m_profile\<close> is an \<open>option\<close>, \<open>None\<close> for \<open>nullptr\<close>.
\<close>

record profile =
  profile_evaluate :: "real \<Rightarrow> error + Point"
  profile_evaluate_derivative :: "real \<Rightarrow> error + Point"
  profile_evaluate_2nd_derivative :: "real \<Rightarrow> error + Point"
  profile_get_periodic :: bool
  profile_get_num_control_points :: int

text \<open>
  Modelled from the spec: \<open>PatchBase.h\<close> is not among the files; the base class keeps
  degree storage and periodicity flags behind plain accessors. \<open>patch_base\<close> is the part
  of \<open>PatchBase\<close> the class writes, and \<open>set_degree_u\<close>, \<open>set_degree_v\<close>,
  \<open>set_periodic_u\<close> and \<open>set_periodic_v\<close> are updates of its fields.
\<close>

record patch_base =
  degree_u :: int
  degree_v :: int
  periodic_u :: bool
  periodic_v :: bool

record revolution_patch = patch_base +
  m_location :: Point
  m_frame :: Frame
  m_profile :: "profile option"
  m_u_lower :: real
  m_u_upper :: real
  m_v_lower :: real
  m_v_upper :: real

text \<open>
  The constructor, on the base-class part \<open>b\<close> as \<open>PatchBase\<close> constructs it. \<open>M_PI\<close>
  is \<open>pi\<close>.
\<close>

definition RevolutionPatch :: "patch_base \<Rightarrow> revolution_patch" where
  "RevolutionPatch b =
     \<lparr>degree_u = 2, degree_v = 2, periodic_u = periodic_u b, periodic_v = periodic_v b,
      m_location = (0, 0, 0),
      m_frame = ((1, 0, 0), (0, 1, 0), (0, 0, 1)),
      m_profile = None,
      m_u_lower = 0, m_u_upper = 1, m_v_lower = 0, m_v_upper = 2 * pi\<rparr>"

definition set_location :: "revolution_patch \<Rightarrow> Point \<Rightarrow> revolution_patch" where
  "set_location P p = P\<lparr>m_location := p\<rparr>"

definition set_frame :: "revolution_patch \<Rightarrow> Frame \<Rightarrow> revolution_patch" where
  "set_frame P f = P\<lparr>m_frame := f\<rparr>"

definition set_profile :: "revolution_patch \<Rightarrow> profile option \<Rightarrow> revolution_patch" where
  "set_profile P prof = P\<lparr>m_profile := prof\<rparr>"

definition set_u_lower_bound :: "revolution_patch \<Rightarrow> real \<Rightarrow> revolution_patch" where
  "set_u_lower_bound P t = P\<lparr>m_u_lower := t\<rparr>"

definition set_u_upper_bound :: "revolution_patch \<Rightarrow> real \<Rightarrow> revolution_patch" where
  "set_u_upper_bound P t = P\<lparr>m_u_upper := t\<rparr>"

definition set_v_lower_bound :: "revolution_patch \<Rightarrow> real \<Rightarrow> revolution_patch" where
  "set_v_lower_bound P t = P\<lparr>m_v_lower := t\<rparr>"

definition set_v_upper_bound :: "revolution_patch \<Rightarrow> real \<Rightarrow> revolution_patch" where
  "set_v_upper_bound P t = P\<lparr>m_v_upper := t\<rparr>"

definition assert_valid_profile :: "revolution_patch \<Rightarrow> error option" where
  "assert_valid_profile P =
     (if m_profile P = None then Some invalid_setting_error else None)"

subsection \<open>Evaluation\<close>

definition RevolutionPatch_evaluate :: "revolution_patch \<Rightarrow> real \<Rightarrow> real \<Rightarrow> error + Point" where
  "RevolutionPatch_evaluate P u v =
     (case assert_valid_profile P of
        Some e \<Rightarrow> Inl e
      | None \<Rightarrow>
          (case profile_evaluate (the (m_profile P)) u of
             Inl e \<Rightarrow> Inl e
           | Inr p \<Rightarrow>
               Inr (vadd (m_location P)
                      (AngleAxis_times v (row2 (m_frame P)) (vsub p (m_location P))))))"

definition RevolutionPatch_evaluate_derivative_u ::
  "revolution_patch \<Rightarrow> real \<Rightarrow> real \<Rightarrow> error + Point" where
  "RevolutionPatch_evaluate_derivative_u P u v =
     (case assert_valid_profile P of
        Some e \<Rightarrow> Inl e
      | None \<Rightarrow>
          (case profile_evaluate_derivative (the (m_profile P)) u of
             Inl e \<Rightarrow> Inl e
           | Inr d \<Rightarrow> Inr (AngleAxis_times v (row2 (m_frame P)) d)))"

text \<open>
  \<open>std::numeric_limits<Scalar>::epsilon()\<close> depends on the scalar type; it is the
  argument \<open>eps\<close> of the functions that use a tolerance.
\<close>

definition RevolutionPatch_evaluate_derivative_v ::
  "real \<Rightarrow> revolution_patch \<Rightarrow> real \<Rightarrow> real \<Rightarrow> error + Point" where
  "RevolutionPatch_evaluate_derivative_v eps P u v =
     (case assert_valid_profile P of
        Some e \<Rightarrow> Inl e
      | None \<Rightarrow>
          (case RevolutionPatch_evaluate P u v of
             Inl e \<Rightarrow> Inl e
           | Inr p \<Rightarrow>
               let d = cross (row2 (m_frame P)) (vsub p (m_location P));
                   TOL = eps * 10
               in if vnorm d > TOL
                  then
                    let w = vsub p (m_location P);
                        r = vnorm (vsub w (smul (dot w (row2 (m_frame P))) (row2 (m_frame P))))
                    in Inr (vmul (normalized d) r)
                  else Inr d))"

definition RevolutionPatch_evaluate_2nd_derivative_uu ::
  "revolution_patch \<Rightarrow> real \<Rightarrow> real \<Rightarrow> error + Point" where
  "RevolutionPatch_evaluate_2nd_derivative_uu P u v =
     (case assert_valid_profile P of
        Some e \<Rightarrow> Inl e
      | None \<Rightarrow>
          (case profile_evaluate_2nd_derivative (the (m_profile P)) u of
             Inl e \<Rightarrow> Inl e
           | Inr d \<Rightarrow> Inr (AngleAxis_times v (row2 (m_frame P)) d)))"

definition RevolutionPatch_evaluate_2nd_derivative_vv ::
  "revolution_patch \<Rightarrow> real \<Rightarrow> real \<Rightarrow> error + Point" where
  "RevolutionPatch_evaluate_2nd_derivative_vv P u v =
     (case assert_valid_profile P of
        Some e \<Rightarrow> Inl e
      | None \<Rightarrow>
          (case RevolutionPatch_evaluate P u v of
             Inl e \<Rightarrow> Inl e
           | Inr p \<Rightarrow>
               let d = vsub p (m_location P)
               in Inr (vadd (vneg d) (smul (dot d (row2 (m_frame P))) (row2 (m_frame P))))))"

definition RevolutionPatch_evaluate_2nd_derivative_uv ::
  "real \<Rightarrow> revolution_patch \<Rightarrow> real \<Rightarrow> real \<Rightarrow> error + Point" where
  "RevolutionPatch_evaluate_2nd_derivative_uv eps P u v =
     (case assert_valid_profile P of
        Some e \<Rightarrow> Inl e
      | None \<Rightarrow>
          (case RevolutionPatch_evaluate_derivative_u P u v of
             Inl e \<Rightarrow> Inl e
           | Inr du \<Rightarrow>
               let duv = cross (row2 (m_frame P)) du;
                   TOL = eps * 10
               in if vnorm duv > TOL
                  then
                    let r = vnorm (vsub duv
                                     (smul (dot duv (row2 (m_frame P))) (row2 (m_frame P))))
                    in Inr (vmul (normalized duv) r)
                  else Inr duv))"

subsection \<open>initialize\<close>

text \<open>
  The eight \<open>assert\<close>s of \<open>initialize\<close>, in the order of the source. They are compiled
  out under \<open>NDEBUG\<close>, the flag \<open>ndebug\<close> of the model; otherwise the first one that fails
  aborts the program.
\<close>

definition initialize_asserts :: "real \<Rightarrow> revolution_patch \<Rightarrow> bool" where
  "initialize_asserts TOL P =
     (\<bar>squaredNorm (row0 (m_frame P)) - 1\<bar> < TOL \<and>
      \<bar>squaredNorm (row1 (m_frame P)) - 1\<bar> < TOL \<and>
      \<bar>squaredNorm (row2 (m_frame P)) - 1\<bar> < TOL \<and>
      \<bar>dot (row0 (m_frame P)) (row1 (m_frame P))\<bar> < TOL \<and>
      \<bar>dot (row1 (m_frame P)) (row2 (m_frame P))\<bar> < TOL \<and>
      \<bar>dot (row2 (m_frame P)) (row0 (m_frame P))\<bar> < TOL \<and>
      m_u_upper P > m_u_lower P \<and>
      m_v_upper P > m_v_lower P)"

definition RevolutionPatch_initialize ::
  "bool \<Rightarrow> real \<Rightarrow> revolution_patch \<Rightarrow> revolution_patch \<times> error option" where
  "RevolutionPatch_initialize ndebug eps P =
     (let TOL = eps * 10 in
      case assert_valid_profile P of
        Some e \<Rightarrow> (P, Some e)
      | None \<Rightarrow>
          if ndebug \<or> initialize_asserts TOL P
          then
            let P1 = P\<lparr>periodic_u := profile_get_periodic (the (m_profile P))\<rparr>
            in if m_v_upper P1 - m_v_lower P1 > 2 * pi - TOL
               then (P1\<lparr>periodic_v := True\<rparr>, None)
               else (P1, None)
          else (P, Some assertion_failure))"

subsection \<open>The accessors of the B-spline patches\<close>

text \<open>
  A \<open>void\<close> setter returns the patch after the call and the exception it threw.
\<close>

definition get_num_weights_u :: "revolution_patch \<Rightarrow> error + int" where
  "get_num_weights_u P = Inr 0"

definition get_num_weights_v :: "revolution_patch \<Rightarrow> error + int" where
  "get_num_weights_v P = Inr 0"

definition get_weight :: "revolution_patch \<Rightarrow> int \<Rightarrow> int \<Rightarrow> error + real" where
  "get_weight P i j = Inl not_implemented_error"

definition set_weight ::
  "revolution_patch \<Rightarrow> int \<Rightarrow> int \<Rightarrow> real \<Rightarrow> revolution_patch \<times> error option" where
  "set_weight P i j val = (P, Some not_implemented_error)"

definition get_num_knots_u :: "revolution_patch \<Rightarrow> error + int" where
  "get_num_knots_u P = Inr 0"

definition get_knot_u :: "revolution_patch \<Rightarrow> int \<Rightarrow> error + real" where
  "get_knot_u P i = Inl not_implemented_error"

definition set_knot_u ::
  "revolution_patch \<Rightarrow> int \<Rightarrow> real \<Rightarrow> revolution_patch \<times> error option" where
  "set_knot_u P i val = (P, Some not_implemented_error)"

definition get_num_knots_v :: "revolution_patch \<Rightarrow> error + int" where
  "get_num_knots_v P = Inr 0"

definition get_knot_v :: "revolution_patch \<Rightarrow> int \<Rightarrow> error + real" where
  "get_knot_v P i = Inl not_implemented_error"

definition set_knot_v ::
  "revolution_patch \<Rightarrow> int \<Rightarrow> real \<Rightarrow> revolution_patch \<times> error option" where
  "set_knot_v P i val = (P, Some not_implemented_error)"

definition num_control_points_u :: "revolution_patch \<Rightarrow> error + int" where
  "num_control_points_u P = Inr 0"

definition num_control_points_v :: "revolution_patch \<Rightarrow> error + int" where
  "num_control_points_v P = Inr 0"

definition get_control_point_preimage ::
  "revolution_patch \<Rightarrow> int \<Rightarrow> int \<Rightarrow> error + (real \<times> real)" where
  "get_control_point_preimage P i j = Inl not_implemented_error"

section \<open>What the statements are measured against\<close>

text \<open>
  The distance of the point \<open>p\<close> from the line through \<open>loc\<close> in the direction
  \<open>axis\<close>: the length of what is left of \<open>p - loc\<close> once its orthogonal projection on
  the axis is taken away. This is the radius of the circle on which \<open>p\<close> turns about the
  axis; it does not suppose the axis to be a unit vector, and it is not taken from the
  source.
\<close>

definition axis_distance :: "Point \<Rightarrow> Point \<Rightarrow> Point \<Rightarrow> real" where
  "axis_distance loc axis p =
     (let w = vsub p loc in vnorm (vsub w (smul (dot w axis / dot axis axis) axis)))"

section \<open>Concrete curves and patches\<close>

text \<open>
  The objects at which the general statements are instantiated. \<open>segment_engine\<close> is the
  B-spline engine on curves of degree one with two control points \<open>a\<close> and \<open>b\<close> and the
  knots \<open>0, 0, 1, 1\<close>: the curve is the segment \<open>(1 - t) a + t b\<close>, its derivative is
  \<open>b - a\<close>, and inserting the knot \<open>t\<close> once adds the point of the curve at \<open>t\<close> as the
  middle control point. On any other request it throws.
\<close>

definition segment_engine :: engine where
  "segment_engine =
     \<lparr>validate_curve = (\<lambda>cps knots. length knots = length cps + 2),
      hom_evaluate =
        (\<lambda>h t. case bs_control_points h of
                  [a, b] \<Rightarrow> Inr (map2 (\<lambda>x y. (1 - t) * x + t * y) a b)
                | _ \<Rightarrow> Inl invalid_setting_error),
      hom_evaluate_derivative =
        (\<lambda>h t. case bs_control_points h of
                  [a, b] \<Rightarrow> Inr (map2 (\<lambda>x y. y - x) a b)
                | _ \<Rightarrow> Inl invalid_setting_error),
      hom_insert_knot =
        (\<lambda>h t m. case bs_control_points h of
                    [a, b] \<Rightarrow>
                      if m = 1 \<and> 0 < t \<and> t < 1
                      then (\<lparr>bs_control_points =
                                [a, map2 (\<lambda>x y. (1 - t) * x + t * y) a b, b],
                              bs_knots = [0, 0, t, 1, 1]\<rparr>, None)
                      else (h, Some invalid_setting_error)
                  | _ \<Rightarrow> (h, Some invalid_setting_error))\<rparr>"

text \<open>
  A planar rational segment from \<open>(0, 0)\<close> with weight 1 to \<open>(2, 4)\<close> with weight 2:
  first as the setters leave it, with a default-constructed homogeneous curve, then as
  \<open>initialize\<close> leaves it.
\<close>

definition stale_curve :: nurbs where
  "stale_curve =
     \<lparr>m_control_points = [[0, 0], [2, 4]], m_knots = [0, 0, 1, 1], m_weights = [1, 2],
      m_bspline_homogeneous = \<lparr>bs_control_points = [], bs_knots = []\<rparr>\<rparr>"

definition segment_curve :: nurbs where
  "segment_curve =
     \<lparr>m_control_points = [[0, 0], [2, 4]], m_knots = [0, 0, 1, 1], m_weights = [1, 2],
      m_bspline_homogeneous =
        \<lparr>bs_control_points = [[0, 0, 1], [4, 8, 2]], bs_knots = [0, 0, 1, 1]\<rparr>\<rparr>"


text \<open>
  Two profile curves: the vertical segment from \<open>(1, 0, 0)\<close> to \<open>(1, 1, 0)\<close> on
  \<open>[0, 1]\<close>, and a horizontal segment that starts on the z-axis, at \<open>(0, 0, 1)\<close>.
\<close>

definition segment_profile :: profile where
  "segment_profile =
     \<lparr>profile_evaluate = (\<lambda>u. Inr (1, u, 0)),
      profile_evaluate_derivative = (\<lambda>u. Inr (0, 1, 0)),
      profile_evaluate_2nd_derivative = (\<lambda>u. Inr (0, 0, 0)),
      profile_get_periodic = False,
      profile_get_num_control_points = 2\<rparr>"

definition axis_profile :: profile where
  "axis_profile =
     \<lparr>profile_evaluate = (\<lambda>u. Inr (u, 0, 1)),
      profile_evaluate_derivative = (\<lambda>u. Inr (1, 0, 0)),
      profile_evaluate_2nd_derivative = (\<lambda>u. Inr (0, 0, 0)),
      profile_get_periodic = False,
      profile_get_num_control_points = 2\<rparr>"

text \<open>
  A base-class part with both periodicity flags off, and the patches constructed on it
  with one of the two profiles set; the frame and the location are those of the
  constructor. \<open>double_epsilon\<close> is \<open>epsilon()\<close> of \<open>double\<close>. \<open>narrowed_patch\<close> is
  \<open>segment_patch\<close> after \<open>initialize()\<close> and \<open>set_v_upper_bound(M_PI)\<close>.
\<close>

definition fresh_base :: patch_base where
  "fresh_base = \<lparr>degree_u = 0, degree_v = 0, periodic_u = False, periodic_v = False\<rparr>"

definition segment_patch :: revolution_patch where
  "segment_patch = set_profile (RevolutionPatch fresh_base) (Some segment_profile)"

definition axis_patch :: revolution_patch where
  "axis_patch = set_profile (RevolutionPatch fresh_base) (Some axis_profile)"

definition double_epsilon :: real where
  "double_epsilon = 1 / 2 ^ 52"

definition narrowed_patch :: revolution_patch where
  "narrowed_patch =
     set_v_upper_bound (fst (RevolutionPatch_initialize False double_epsilon segment_patch)) pi"

section \<open>Lemmas on lists of rows and on vectors\<close>

text \<open>Lifting the control points to homogeneous coordinates and back.\<close>

lemma lift_unlift:
  assumes "length ws = length M" and "\<forall>r\<in>set M. length r = D" and "\<forall>w\<in>set ws. w \<noteq> 0"
  shows "colwise_over (leftCols D (map2 (\<lambda>r w. r @ [w]) (colwise_times M ws) ws))
           (rightCols1 (map2 (\<lambda>r w. r @ [w]) (colwise_times M ws) ws)) = M"
  using assms
  unfolding colwise_over_def leftCols_def rightCols1_def colwise_times_def
proof (induction ws M rule: list_induct2)
  case Nil
  then show ?case by simp
next
  case (Cons w ws r M)
  then show ?case by (simp add: comp_def)
qed

lemma lift_weights:
  assumes "length ws = length M"
  shows "rightCols1 (map2 (\<lambda>r w. r @ [w]) (colwise_times M ws) ws) = ws"
  using assms
  unfolding rightCols1_def colwise_times_def
  by (induction ws M rule: list_induct2) simp_all




text \<open>The cross product is orthogonal to its first factor; Lagrange's identity.\<close>

lemma rejection_of_cross:
  "vsub (cross a b) (smul (dot (cross a b) a) a) = cross a b"
  by (cases a, cases b) (simp add: algebra_simps)

lemma squaredNorm_cross:
  "squaredNorm (cross a w) = squaredNorm a * squaredNorm w - (dot w a)\<^sup>2"
  by (cases a, cases w) (simp add: squaredNorm_def power2_eq_square algebra_simps)

lemma squaredNorm_rejection:
  "squaredNorm (vsub w (smul s a)) = squaredNorm w - 2 * s * dot w a + s\<^sup>2 * squaredNorm a"
  by (cases a, cases w) (simp add: squaredNorm_def power2_eq_square algebra_simps)

lemma squaredNorm_nonneg: "0 \<le> squaredNorm a"
  by (cases a) (simp add: squaredNorm_def)

lemma squaredNorm_zero: "squaredNorm a = 0 \<Longrightarrow> a = (0, 0, 0)"
  by (cases a) (simp add: squaredNorm_def add_nonneg_eq_0_iff)

lemma rejection_unit:
  assumes "squaredNorm a = 1"
  shows "vnorm (vsub w (smul (dot w a) a)) = vnorm (cross a w)"
  using assms
  by (simp add: vnorm_def squaredNorm_cross squaredNorm_rejection power2_eq_square)

text \<open>Normalising a vector and rescaling it to its own length gives the vector back.\<close>

lemma vmul_normalized: "vmul (normalized d) (vnorm d) = d"
proof (cases "squaredNorm d > 0")
  case True
  then have "sqrt (squaredNorm d) \<noteq> 0" by simp
  then show ?thesis using True
    by (cases d) (simp add: normalized_def vnorm_def Let_def)
next
  case False
  then have "squaredNorm d = 0" using squaredNorm_nonneg [of d] by simp
  then show ?thesis
    using squaredNorm_zero [of d] by (simp add: normalized_def vnorm_def Let_def)
qed

text \<open>The two scenario patches, evaluated.\<close>

lemma segment_patch_fields:
  "m_profile segment_patch = Some segment_profile \<and>
   m_location segment_patch = (0, 0, 0) \<and>
   m_frame segment_patch = ((1, 0, 0), (0, 1, 0), (0, 0, 1)) \<and>
   m_u_lower segment_patch = 0 \<and> m_u_upper segment_patch = 1 \<and>
   m_v_lower segment_patch = 0 \<and> m_v_upper segment_patch = 2 * pi \<and>
   \<not> periodic_v segment_patch"
  by (simp add: segment_patch_def set_profile_def RevolutionPatch_def fresh_base_def)

lemma axis_patch_fields:
  "m_profile axis_patch = Some axis_profile \<and>
   m_location axis_patch = (0, 0, 0) \<and>
   m_frame axis_patch = ((1, 0, 0), (0, 1, 0), (0, 0, 1))"
  by (simp add: axis_patch_def set_profile_def RevolutionPatch_def)

lemma quarter_turn_about_z:
  "AngleAxis_times (pi / 2) (0, 0, 1) (x, y, z) = (- y, x, z)"
  by (simp add: AngleAxis_times_def mat_vec_def)

section \<open>NURBS: the claims\<close>

text \<open>
  Claim C1. On an initialized curve (\<open>validate_initialization\<close> passes), at a
  parameter \<open>t\<close> where the homogeneous curve has the point \<open>p\<close> and the derivative \<open>d\<close>,
  both with \<open>D + 1\<close> coordinates, and where the last coordinate of \<open>p\<close> is not zero,
  \<open>evaluate_derivative(t)\<close> returns \<open>(d_head - p_head * d_last / p_last) / p_last\<close>:
  a vector of \<open>D\<close> coordinates whose \<open>i\<close>-th one is
  \<open>(d_i - p_i * d_D / p_D) / p_D\<close>.
\<close>

theorem NURBS_evaluate_derivative_quotient_rule:
  assumes "validate_initialization E c = None"
    and "hom_evaluate E (m_bspline_homogeneous c) t = Inr p"
    and "hom_evaluate_derivative E (m_bspline_homogeneous c) t = Inr d"
    and "length p = D + 1" and "length d = D + 1"
    and "p ! D \<noteq> 0"
  shows "\<exists>r. NURBS_evaluate_derivative D E c t = Inr r \<and>
           r = vec_over
                 (vec_minus (head D d) (vec_over (vec_times (head D p) (d ! D)) (p ! D)))
                 (p ! D) \<and>
           length r = D \<and>
           (\<forall>i<D. r ! i = (d ! i - p ! i * d ! D / p ! D) / p ! D)"
  using assms
  by (simp add: NURBS_evaluate_derivative_def vec_over_def vec_minus_def vec_times_def
      head_def)

text \<open>
  The rational segment at \<open>t = 1/2\<close>: the homogeneous point is \<open>(2, 4, 3/2)\<close>, the
  homogeneous derivative \<open>(4, 8, 1)\<close>, and the derivative of the curve \<open>(16/9, 32/9)\<close>.
\<close>

theorem NURBS_evaluate_derivative_quotient_rule_witness:
  "validate_initialization segment_engine segment_curve = None \<and>
   hom_evaluate segment_engine (m_bspline_homogeneous segment_curve) (1 / 2)
     = Inr [2, 4, 3 / 2] \<and>
   hom_evaluate_derivative segment_engine (m_bspline_homogeneous segment_curve) (1 / 2)
     = Inr [4, 8, 1] \<and>
   NURBS_evaluate_derivative 2 segment_engine segment_curve (1 / 2) = Inr [16 / 9, 32 / 9]"
proof -
  have v: "validate_initialization segment_engine segment_curve = None"
    by (simp add: validate_initialization_def segment_engine_def segment_curve_def)
  have p: "hom_evaluate segment_engine (m_bspline_homogeneous segment_curve) (1 / 2)
             = Inr [2, 4, 3 / 2]"
    by (simp add: segment_engine_def segment_curve_def)
  have d: "hom_evaluate_derivative segment_engine (m_bspline_homogeneous segment_curve) (1 / 2)
             = Inr [4, 8, 1]"
    by (simp add: segment_engine_def segment_curve_def)
  from NURBS_evaluate_derivative_quotient_rule [OF v p d, of 2]
  have "NURBS_evaluate_derivative 2 segment_engine segment_curve (1 / 2) = Inr [16 / 9, 32 / 9]"
    by (simp add: vec_over_def vec_minus_def vec_times_def head_def)
  with v p d show ?thesis by simp
qed

text \<open>
  Claim C4. In every state of the curve and for every argument,
  \<open>evaluate_2nd_derivative\<close> and \<open>inverse_evaluate\<close> throw the not-implemented error:
  neither validates anything first, and neither returns a value.
\<close>

theorem NURBS_unsupported_queries:
  "NURBS_evaluate_2nd_derivative c t = Inl not_implemented_error \<and>
   NURBS_inverse_evaluate c p = Inl not_implemented_error"
  by (simp add: NURBS_evaluate_2nd_derivative_def NURBS_inverse_evaluate_def)

text \<open>
  Claim C5, as the code has it. On a curve whose homogeneous control-point count differs
  from the count of its control points or of its weights, \<open>evaluate\<close> and
  \<open>evaluate_derivative\<close> throw the invalid-configuration error. \<open>inverse_evaluate\<close>
  validates nothing and throws the not-implemented error there, as in every state.
\<close>

theorem NURBS_stale_queries:
  assumes "length (bs_control_points (m_bspline_homogeneous c)) \<noteq> length (m_control_points c) \<or>
           length (bs_control_points (m_bspline_homogeneous c)) \<noteq> length (m_weights c)"
  shows "NURBS_evaluate D E c t = Inl invalid_setting_error \<and>
         NURBS_evaluate_derivative D E c t = Inl invalid_setting_error \<and>
         NURBS_inverse_evaluate c q = Inl not_implemented_error"
  using assms
  by (auto simp add: NURBS_evaluate_def NURBS_evaluate_derivative_def
      NURBS_inverse_evaluate_def validate_initialization_def Let_def)

text \<open>The curve that was set up and never initialized: no homogeneous control point, two control points.\<close>

theorem NURBS_stale_queries_witness:
  "length (bs_control_points (m_bspline_homogeneous stale_curve))
     \<noteq> length (m_control_points stale_curve) \<and>
   NURBS_evaluate 2 segment_engine stale_curve (1 / 2) = Inl invalid_setting_error \<and>
   NURBS_evaluate_derivative 2 segment_engine stale_curve (1 / 2) = Inl invalid_setting_error \<and>
   NURBS_inverse_evaluate stale_curve [1, 2] = Inl not_implemented_error"
proof -
  have h: "length (bs_control_points (m_bspline_homogeneous stale_curve))
             \<noteq> length (m_control_points stale_curve)"
    by (simp add: stale_curve_def)
  from h NURBS_stale_queries [of stale_curve 2 segment_engine "1 / 2" "[1, 2]"]
  show ?thesis by simp
qed

text \<open>
  The claim as it was stated fails on that curve: the counts differ, and
  \<open>inverse_evaluate\<close> does not end in the invalid-configuration error.
\<close>

theorem NURBS_stale_inverse_evaluate_counterexample:
  "length (bs_control_points (m_bspline_homogeneous stale_curve))
     \<noteq> length (m_control_points stale_curve) \<and>
   NURBS_inverse_evaluate stale_curve [1, 2] \<noteq> Inl invalid_setting_error"
  by (simp add: stale_curve_def NURBS_inverse_evaluate_def)




text \<open>
  Claim C7. On a curve with one non-zero weight per control point (and control points
  of \<open>D\<close> coordinates), \<open>initialize()\<close> returns, and \<open>set_homogeneous(get_homogeneous())\<close>
  after it leaves the control points, the weights and the knots as they were before
  \<open>initialize()\<close>. The validation at the end of \<open>set_homogeneous\<close> throws only if the
  base-class validation of the curve does.
\<close>

theorem NURBS_homogeneous_round_trip:
  assumes "length (m_weights c) = length (m_control_points c)"
    and "\<forall>r\<in>set (m_control_points c). length r = D"
    and "\<forall>w\<in>set (m_weights c). w \<noteq> 0"
  shows "\<exists>c1 c2 r. NURBS_initialize c = Inr c1 \<and>
           set_homogeneous D E c1 (get_homogeneous c1) = (c2, r) \<and>
           m_control_points c2 = m_control_points c \<and>
           m_weights c2 = m_weights c \<and>
           m_knots c2 = m_knots c \<and>
           (validate_curve E (m_control_points c) (m_knots c) \<longrightarrow> r = None)"
proof -
  define H where "H = map2 (\<lambda>r w. r @ [w])
                        (colwise_times (m_control_points c) (m_weights c)) (m_weights c)"
  define c1 where "c1 = c\<lparr>m_bspline_homogeneous :=
                   (m_bspline_homogeneous c)\<lparr>bs_control_points := H, bs_knots := m_knots c\<rparr>\<rparr>"
  define c2 where "c2 = fst (set_homogeneous D E c1 (get_homogeneous c1))"
  define r where "r = snd (set_homogeneous D E c1 (get_homogeneous c1))"
  have init: "NURBS_initialize c = Inr c1"
    using assms(1) by (simp add: NURBS_initialize_def c1_def H_def)
  have ws: "rightCols1 H = m_weights c"
    unfolding H_def using assms(1) by (rule lift_weights)
  have "colwise_over (leftCols D H) (rightCols1 H) = m_control_points c"
    unfolding H_def using assms by (rule lift_unlift)
  then have pts: "colwise_over (leftCols D H) (m_weights c) = m_control_points c"
    by (simp add: ws)
  have lenH: "length H = length (m_control_points c)"
    using assms(1) by (simp add: H_def colwise_times_def)
  have c2: "c2 = c1\<lparr>m_control_points := m_control_points c, m_knots := m_knots c,
                    m_weights := m_weights c\<rparr>"
    by (simp add: c2_def set_homogeneous_def get_homogeneous_def Let_def c1_def pts ws)
  have r: "r = validate_initialization E c2"
    by (simp add: r_def c2_def set_homogeneous_def Let_def)
  have ok: "r = None" if "validate_curve E (m_control_points c) (m_knots c)"
    using that assms(1) lenH by (simp add: r c2 validate_initialization_def c1_def)
  have "set_homogeneous D E c1 (get_homogeneous c1) = (c2, r)"
    by (simp add: c2_def r_def)
  with init ok show ?thesis
    by (intro exI [of _ c1] exI [of _ c2] exI [of _ r]) (simp add: c2)
qed

text \<open>
  The segment as the setters left it: \<open>initialize\<close> gives \<open>segment_curve\<close>, and the round
  trip through the homogeneous curve gives \<open>segment_curve\<close> again, without an exception.
\<close>

theorem NURBS_homogeneous_round_trip_witness:
  "NURBS_initialize stale_curve = Inr segment_curve \<and>
   m_control_points
     (fst (set_homogeneous 2 segment_engine segment_curve (get_homogeneous segment_curve)))
     = [[0, 0], [2, 4]] \<and>
   m_weights
     (fst (set_homogeneous 2 segment_engine segment_curve (get_homogeneous segment_curve)))
     = [1, 2] \<and>
   snd (set_homogeneous 2 segment_engine segment_curve (get_homogeneous segment_curve)) = None"
proof -
  have len: "length (m_weights stale_curve) = length (m_control_points stale_curve)"
    by (simp add: stale_curve_def)
  have rows: "\<forall>r\<in>set (m_control_points stale_curve). length r = 2"
    by (simp add: stale_curve_def)
  have nz: "\<forall>w\<in>set (m_weights stale_curve). w \<noteq> 0"
    by (simp add: stale_curve_def)
  have init: "NURBS_initialize stale_curve = Inr segment_curve"
    by (simp add: NURBS_initialize_def stale_curve_def segment_curve_def colwise_times_def)
  have valid: "validate_curve segment_engine (m_control_points stale_curve) (m_knots stale_curve)"
    by (simp add: segment_engine_def stale_curve_def)
  from NURBS_homogeneous_round_trip [OF len rows nz, of segment_engine] init valid
  obtain c2 where
    "set_homogeneous 2 segment_engine segment_curve (get_homogeneous segment_curve) = (c2, None)"
    and "m_control_points c2 = m_control_points stale_curve"
    and "m_weights c2 = m_weights stale_curve"
    by auto
  with init show ?thesis by (simp add: stale_curve_def)
qed

section \<open>RevolutionPatch: the claims\<close>

text \<open>
  Claim C2, as the code has it. On every revolution patch, the accessors that take an
  index (\<open>get_weight\<close>, \<open>set_weight\<close>, \<open>get_knot_u\<close>, \<open>set_knot_u\<close>, \<open>get_knot_v\<close>,
  \<open>set_knot_v\<close>, \<open>get_control_point_preimage\<close>) throw the not-implemented error, the
  setters leaving the patch as it was. The six counts (\<open>get_num_weights_u/v\<close>,
  \<open>get_num_knots_u/v\<close>, \<open>num_control_points_u/v\<close>) throw nothing and return 0.
\<close>

theorem RevolutionPatch_accessors:
  "get_weight P i j = Inl not_implemented_error \<and>
   set_weight P i j x = (P, Some not_implemented_error) \<and>
   get_knot_u P i = Inl not_implemented_error \<and>
   set_knot_u P i x = (P, Some not_implemented_error) \<and>
   get_knot_v P i = Inl not_implemented_error \<and>
   set_knot_v P i x = (P, Some not_implemented_error) \<and>
   get_control_point_preimage P i j = Inl not_implemented_error \<and>
   get_num_weights_u P = Inr 0 \<and> get_num_weights_v P = Inr 0 \<and>
   get_num_knots_u P = Inr 0 \<and> get_num_knots_v P = Inr 0 \<and>
   num_control_points_u P = Inr 0 \<and> num_control_points_v P = Inr 0"
  by (simp add: get_weight_def set_weight_def get_knot_u_def set_knot_u_def get_knot_v_def
      set_knot_v_def get_control_point_preimage_def get_num_weights_u_def
      get_num_weights_v_def get_num_knots_u_def get_num_knots_v_def
      num_control_points_u_def num_control_points_v_def)

text \<open>
  The claim as it was stated fails on the patch the constructor returns:
  \<open>get_num_weights_u\<close> does not throw the not-implemented error.
\<close>

theorem RevolutionPatch_count_accessor_counterexample:
  "get_num_weights_u (RevolutionPatch fresh_base) \<noteq> Inl not_implemented_error"
  by (simp add: get_num_weights_u_def)

text \<open>
  Claim C3, as the code has it. The patch of the constructor (identity frame, zero
  location) with the segment from \<open>(1, 0, 0)\<close> to \<open>(1, 1, 0)\<close> as its profile has, at
  \<open>u = 1/2\<close> and \<open>v = pi/2\<close>, the point \<open>(-1/2, 1, 0)\<close>: the profile point
  \<open>(1, 1/2, 0)\<close> turned by a quarter turn about the z-axis, the row 2 of the frame.
\<close>

theorem RevolutionPatch_segment_evaluate:
  "RevolutionPatch_evaluate segment_patch (1 / 2) (pi / 2) = Inr (- 1 / 2, 1, 0)"
  by (simp add: RevolutionPatch_evaluate_def assert_valid_profile_def segment_patch_fields
      segment_profile_def quarter_turn_about_z)

text \<open>The point is not the \<open>(0, 1/2, 1)\<close> of the claim as it was stated.\<close>

theorem RevolutionPatch_segment_evaluate_counterexample:
  "RevolutionPatch_evaluate segment_patch (1 / 2) (pi / 2) \<noteq> Inr (0, 1 / 2, 1)"
  by (simp add: RevolutionPatch_evaluate_def assert_valid_profile_def segment_patch_fields
      segment_profile_def quarter_turn_about_z)

text \<open>
  Claim C8. Let \<open>evaluate(u, v)\<close> return the point \<open>p\<close> (so the profile is set), let
  the axis \<open>frame.row(2)\<close> be a unit vector and \<open>d\<close> the cross product of the axis with
  \<open>p - location\<close>. Then \<open>evaluate_derivative_v(u, v)\<close> returns: when the norm of \<open>d\<close>
  is above the tolerance \<open>10 * epsilon\<close>, the vector \<open>d\<close> normalized and multiplied by
  the distance of \<open>p\<close> from the axis, a vector whose norm is that distance; otherwise
  \<open>d\<close> itself, as it is. Neither case throws.
\<close>

theorem RevolutionPatch_evaluate_derivative_v_rescaled:
  assumes "RevolutionPatch_evaluate P u v = Inr p"
    and "vnorm (row2 (m_frame P)) = 1"
    and "d = cross (row2 (m_frame P)) (vsub p (m_location P))"
  shows "\<exists>r. RevolutionPatch_evaluate_derivative_v eps P u v = Inr r \<and>
           r = (if vnorm d > eps * 10
                then vmul (normalized d) (axis_distance (m_location P) (row2 (m_frame P)) p)
                else d) \<and>
           (vnorm d > eps * 10 \<longrightarrow>
              vnorm r = axis_distance (m_location P) (row2 (m_frame P)) p)"
proof -
  define a where "a = row2 (m_frame P)"
  define w where "w = vsub p (m_location P)"
  have unit: "squaredNorm a = 1"
    using assms(2) by (simp add: vnorm_def a_def)
  then have "dot a a = 1" by (simp add: squaredNorm_def)
  then have dist: "axis_distance (m_location P) a p = vnorm (vsub w (smul (dot w a) a))"
    by (simp add: axis_distance_def w_def Let_def)
  have profile: "assert_valid_profile P = None"
    using assms(1) by (simp add: RevolutionPatch_evaluate_def split: option.splits)
  have run: "RevolutionPatch_evaluate_derivative_v eps P u v =
      Inr (if vnorm d > eps * 10
           then vmul (normalized d) (axis_distance (m_location P) a p) else d)"
    using assms(1,3) profile
    by (simp add: RevolutionPatch_evaluate_derivative_v_def Let_def
        dist [unfolded a_def w_def] a_def)
  have same: "vnorm (vmul (normalized d) (axis_distance (m_location P) a p)) =
        axis_distance (m_location P) a p"
    using rejection_unit [OF unit, of w] vmul_normalized [of d] assms(3)
    by (simp add: dist) (simp add: a_def w_def)
  from run same show ?thesis by (simp add: a_def)
qed

text \<open>
  Both cases on the patches of the constructor, at \<open>u = 0\<close> and \<open>v = pi/2\<close>. With the
  vertical segment as profile the point is \<open>(0, 1, 0)\<close>, at distance 1 from the z-axis,
  and the derivative is \<open>(-1, 0, 0)\<close>. With the profile that starts on the axis the point
  is \<open>(0, 0, 1)\<close>, the cross product is zero and is returned as it is.
\<close>

theorem RevolutionPatch_evaluate_derivative_v_rescaled_witness:
  "RevolutionPatch_evaluate segment_patch 0 (pi / 2) = Inr (0, 1, 0) \<and>
   vnorm (row2 (m_frame segment_patch)) = 1 \<and>
   vnorm (- 1, 0, 0) > double_epsilon * 10 \<and>
   RevolutionPatch_evaluate_derivative_v double_epsilon segment_patch 0 (pi / 2)
     = Inr (- 1, 0, 0) \<and>
   RevolutionPatch_evaluate axis_patch 0 (pi / 2) = Inr (0, 0, 1) \<and>
   \<not> vnorm (0, 0, 0) > double_epsilon * 10 \<and>
   RevolutionPatch_evaluate_derivative_v double_epsilon axis_patch 0 (pi / 2)
     = Inr (0, 0, 0)"
proof -
  have e1: "RevolutionPatch_evaluate segment_patch 0 (pi / 2) = Inr (0, 1, 0)"
    by (simp add: RevolutionPatch_evaluate_def assert_valid_profile_def segment_patch_fields
        segment_profile_def quarter_turn_about_z)
  have e2: "RevolutionPatch_evaluate axis_patch 0 (pi / 2) = Inr (0, 0, 1)"
    by (simp add: RevolutionPatch_evaluate_def assert_valid_profile_def axis_patch_fields
        axis_profile_def quarter_turn_about_z)
  have u1: "vnorm (row2 (m_frame segment_patch)) = 1"
    by (simp add: segment_patch_fields vnorm_def squaredNorm_def)
  have u2: "vnorm (row2 (m_frame axis_patch)) = 1"
    by (simp add: axis_patch_fields vnorm_def squaredNorm_def)
  have d1: "(- 1, 0, 0) =
      cross (row2 (m_frame segment_patch)) (vsub (0, 1, 0) (m_location segment_patch))"
    by (simp add: segment_patch_fields)
  have d2: "(0, 0, 0) =
      cross (row2 (m_frame axis_patch)) (vsub (0, 0, 1) (m_location axis_patch))"
    by (simp add: axis_patch_fields)
  have n1: "vnorm (- 1, 0, 0) > double_epsilon * 10"
    by (simp add: vnorm_def squaredNorm_def double_epsilon_def)
  have n2: "\<not> vnorm (0, 0, 0) > double_epsilon * 10"
    by (simp add: vnorm_def squaredNorm_def double_epsilon_def)
  have dist: "axis_distance (m_location segment_patch) (row2 (m_frame segment_patch)) (0, 1, 0) = 1"
    by (simp add: axis_distance_def segment_patch_fields vnorm_def squaredNorm_def)
  have nd: "normalized (- 1, 0, 0) = (- 1, 0, 0)"
    by (simp add: normalized_def squaredNorm_def)
  from RevolutionPatch_evaluate_derivative_v_rescaled [OF e1 u1 d1, of double_epsilon] n1
  have r1: "RevolutionPatch_evaluate_derivative_v double_epsilon segment_patch 0 (pi / 2)
              = Inr (- 1, 0, 0)"
    by (simp add: dist nd)
  from RevolutionPatch_evaluate_derivative_v_rescaled [OF e2 u2 d2, of double_epsilon] n2
  have r2: "RevolutionPatch_evaluate_derivative_v double_epsilon axis_patch 0 (pi / 2)
              = Inr (0, 0, 0)"
    by simp
  from e1 e2 u1 n1 n2 r1 r2 show ?thesis by simp
qed

text \<open>
  Claim C9. \<open>initialize()\<close> never clears the v-periodicity flag: a patch that is marked
  v-periodic is still marked so afterwards, whatever its bounds are and whether the call
  returns, throws or aborts. The flag is set after the call exactly when it was set
  before, or the call returned and the v-span exceeds \<open>2 * pi\<close> minus the tolerance.
\<close>

theorem RevolutionPatch_initialize_periodic_v:
  "(periodic_v P \<longrightarrow> periodic_v (fst (RevolutionPatch_initialize ndebug eps P))) \<and>
   (periodic_v (fst (RevolutionPatch_initialize ndebug eps P)) \<longleftrightarrow>
      periodic_v P \<or>
      (snd (RevolutionPatch_initialize ndebug eps P) = None \<and>
       m_v_upper P - m_v_lower P > 2 * pi - eps * 10))"
  by (simp add: RevolutionPatch_initialize_def Let_def split: option.splits)

text \<open>
  The patch of the constructor with a profile, bounds \<open>[0, 2 * pi]\<close>, is not marked
  v-periodic; \<open>initialize()\<close> marks it. With the upper v-bound then set to \<open>pi\<close> the span
  is under a full turn minus the tolerance, \<open>initialize()\<close> returns again, and the patch
  is still marked v-periodic.
\<close>

theorem RevolutionPatch_initialize_periodic_v_witness:
  "\<not> periodic_v segment_patch \<and>
   periodic_v (fst (RevolutionPatch_initialize False double_epsilon segment_patch)) \<and>
   periodic_v narrowed_patch \<and>
   m_v_upper narrowed_patch - m_v_lower narrowed_patch = pi \<and>
   \<not> m_v_upper narrowed_patch - m_v_lower narrowed_patch > 2 * pi - double_epsilon * 10 \<and>
   snd (RevolutionPatch_initialize False double_epsilon narrowed_patch) = None \<and>
   periodic_v (fst (RevolutionPatch_initialize False double_epsilon narrowed_patch))"
proof -
  have tol: "double_epsilon * 10 < 1" "0 < double_epsilon * 10"
    by (simp_all add: double_epsilon_def)
  have checks: "initialize_asserts (double_epsilon * 10) segment_patch"
    using tol by (simp add: initialize_asserts_def segment_patch_fields squaredNorm_def)
  have first: "RevolutionPatch_initialize False double_epsilon segment_patch =
      (segment_patch\<lparr>periodic_u := False, periodic_v := True\<rparr>, None)"
    using tol checks
    by (simp add: RevolutionPatch_initialize_def assert_valid_profile_def segment_patch_fields
        segment_profile_def)
  have narrowed: "narrowed_patch =
      segment_patch\<lparr>periodic_u := False, periodic_v := True, m_v_upper := pi\<rparr>"
    by (simp add: narrowed_patch_def first set_v_upper_bound_def)
  have span: "m_v_upper narrowed_patch - m_v_lower narrowed_patch = pi"
    by (simp add: narrowed segment_patch_fields)
  have under: "\<not> m_v_upper narrowed_patch - m_v_lower narrowed_patch > 2 * pi - double_epsilon * 10"
    using tol pi_ge_two by (simp add: span)
  have checks2: "initialize_asserts (double_epsilon * 10) narrowed_patch"
    using tol by (simp add: initialize_asserts_def narrowed segment_patch_fields squaredNorm_def)
  have second: "snd (RevolutionPatch_initialize False double_epsilon narrowed_patch) = None"
    using checks2 under
    by (simp add: RevolutionPatch_initialize_def assert_valid_profile_def narrowed
        segment_patch_fields)
  have marked: "periodic_v narrowed_patch"
    by (simp add: narrowed)
  from RevolutionPatch_initialize_periodic_v [of narrowed_patch False double_epsilon] marked
  have "periodic_v (fst (RevolutionPatch_initialize False double_epsilon narrowed_patch))"
    by blast
  with first marked span under second show ?thesis
    by (simp add: segment_patch_fields)
qed

text \<open>
  Claim C10. When \<open>evaluate_derivative_u(u, v)\<close> returns \<open>du\<close> (so the profile is set),
  \<open>evaluate_2nd_derivative_uv(u, v)\<close> returns the cross product \<open>duv\<close> of the axis
  \<open>frame.row(2)\<close> with \<open>du\<close>: \<open>duv\<close> is orthogonal to the axis, so the radius the code
  computes is the norm of \<open>duv\<close>, and normalizing \<open>duv\<close> and rescaling it to that radius
  gives \<open>duv\<close> back. This holds for every axis, so for a unit axis.
\<close>

theorem RevolutionPatch_evaluate_2nd_derivative_uv_cross:
  assumes "RevolutionPatch_evaluate_derivative_u P u v = Inr du"
    and "duv = cross (row2 (m_frame P)) du"
  shows "RevolutionPatch_evaluate_2nd_derivative_uv eps P u v = Inr duv \<and>
         vnorm (vsub duv (smul (dot duv (row2 (m_frame P))) (row2 (m_frame P)))) = vnorm duv \<and>
         vmul (normalized duv) (vnorm duv) = duv"
proof -
  have profile: "assert_valid_profile P = None"
    using assms(1) by (simp add: RevolutionPatch_evaluate_derivative_u_def split: option.splits)
  have radius: "vsub duv (smul (dot duv (row2 (m_frame P))) (row2 (m_frame P))) = duv"
    unfolding assms(2) by (rule rejection_of_cross)
  have "RevolutionPatch_evaluate_2nd_derivative_uv eps P u v = Inr duv"
    using assms profile
    by (simp add: RevolutionPatch_evaluate_2nd_derivative_uv_def Let_def rejection_of_cross
        vmul_normalized)
  then show ?thesis by (simp add: radius vmul_normalized)
qed

text \<open>
  On the patch of the constructor with the vertical segment as profile, at \<open>u = 0\<close> and
  \<open>v = pi/2\<close>: the u-derivative is \<open>(-1, 0, 0)\<close>, its cross product with the z-axis is
  \<open>(0, -1, 0)\<close>, of norm 1, above the tolerance.
\<close>

theorem RevolutionPatch_evaluate_2nd_derivative_uv_cross_witness:
  "RevolutionPatch_evaluate_derivative_u segment_patch 0 (pi / 2) = Inr (- 1, 0, 0) \<and>
   vnorm (0, - 1, 0) > double_epsilon * 10 \<and>
   RevolutionPatch_evaluate_2nd_derivative_uv double_epsilon segment_patch 0 (pi / 2)
     = Inr (0, - 1, 0)"
proof -
  have du: "RevolutionPatch_evaluate_derivative_u segment_patch 0 (pi / 2) = Inr (- 1, 0, 0)"
    by (simp add: RevolutionPatch_evaluate_derivative_u_def assert_valid_profile_def
        segment_patch_fields segment_profile_def quarter_turn_about_z)
  have duv: "(0, - 1, 0) = cross (row2 (m_frame segment_patch)) (- 1, 0, 0)"
    by (simp add: segment_patch_fields)
  have n: "vnorm (0, - 1, 0) > double_epsilon * 10"
    by (simp add: vnorm_def squaredNorm_def double_epsilon_def)
  from RevolutionPatch_evaluate_2nd_derivative_uv_cross [OF du duv, of double_epsilon] du n
  show ?thesis by simp
qed

end
